theory Spec2Isabelle
  imports Complex_Main "HOL-Library.AList"
begin

text \<open>
  The data layer of the bug tracker (\<open>database.js\<close>) and its request middleware
  (\<open>validBody\<close>), as functions over explicit values: the identifier codec \<open>newId\<close>,
  the sort options, the filter and the pagination of the user listing, and the user
  operations on the \<open>Users\<close> collection. An operation that throws returns \<open>Inl\<close> of
  the error; an operation that writes returns the store with its result.
\<close>

section \<open>JavaScript values\<close>

text \<open>
  The values that reach the data layer. A number is modelled by its integral value
  (a day count, a page number, a count of documents) with exact arithmetic, plus the
  not-a-number value; fractions, the infinities and the rounding of doubles are
  outside the model. A string is a list of ASCII characters. An identifier object
  carries its twelve bytes, a date object its time value in milliseconds of local
  time.
\<close>

datatype jsval =
    JUndefined
  | JNull
  | JBool bool
  | JNum int
  | JNaN
  | JStr string
  | JOid "nat list"
  | JDate int


fun isString :: "jsval \<Rightarrow> bool" where
  "isString (JStr s) = True"
| "isString v = False"

text \<open>The truthiness of a value, as \<open>if (v)\<close>, \<open>!v\<close> and \<open>v || d\<close> read it.\<close>

fun truthy :: "jsval \<Rightarrow> bool" where
  "truthy JUndefined = False"
| "truthy JNull = False"
| "truthy (JBool b) = b"
| "truthy (JNum n) = (n \<noteq> 0)"
| "truthy JNaN = False"
| "truthy (JStr s) = (s \<noteq> [])"
| "truthy (JOid b) = True"
| "truthy (JDate t) = True"

text \<open>A thrown \<open>Error\<close> with its message.\<close>

datatype error = Error string

text \<open>
  An object with ordered keys. \<open>AList.update k v\<close> is the assignment \<open>o[k] = v\<close>,
  \<open>getField\<close> the property read \<open>o.k\<close>, which is \<open>undefined\<close> for a missing key.
\<close>

type_synonym doc = "(string \<times> jsval) list"

definition getField :: "doc \<Rightarrow> string \<Rightarrow> jsval" where
  "getField d k = (case map_of d k of Some v \<Rightarrow> v | None \<Rightarrow> JUndefined)"

section \<open>Strings\<close>

text \<open>The white space that \<open>trim\<close> and \<open>parseInt\<close> skip: TAB, LF, VT, FF, CR and space.\<close>

definition isWhiteSpace :: "char \<Rightarrow> bool" where
  "isWhiteSpace c = (let n = (of_char c :: nat) in (9 \<le> n \<and> n \<le> 13) \<or> n = 32)"

definition trim :: "string \<Rightarrow> string" where
  "trim s = rev (dropWhile isWhiteSpace (rev (dropWhile isWhiteSpace s)))"

definition toLowerChar :: "char \<Rightarrow> char" where
  "toLowerChar c =
     (case map_of (zip ''ABCDEFGHIJKLMNOPQRSTUVWXYZ'' ''abcdefghijklmnopqrstuvwxyz'') c of
        Some l \<Rightarrow> l
      | None \<Rightarrow> c)"

definition toLowerCase :: "string \<Rightarrow> string" where
  "toLowerCase s = map toLowerChar s"

section \<open>Identifier codec\<close>

text \<open>
  Modelled from the spec: the identifier type \<open>ObjectId\<close> of the store's driver, which
  the repository imports and does not define. An identifier is externally a
  fixed-length hex string: 24 hex digits, two for each of its twelve bytes.
\<close>

definition isHexChar :: "char \<Rightarrow> bool" where
  "isHexChar c =
     (let n = (of_char c :: nat)
      in (48 \<le> n \<and> n \<le> 57) \<or> (97 \<le> n \<and> n \<le> 102) \<or> (65 \<le> n \<and> n \<le> 70))"

definition hexValue :: "char \<Rightarrow> nat" where
  "hexValue c =
     (let n = (of_char c :: nat)
      in if 48 \<le> n \<and> n \<le> 57 then n - 48
         else if 97 \<le> n \<and> n \<le> 102 then n - 87
         else n - 55)"

definition checkForHexRegExp :: "string \<Rightarrow> bool" where
  "checkForHexRegExp s = (length s = 24 \<and> list_all isHexChar s)"

text \<open>
  Modelled from the spec: the driver's shape check \<open>ObjectId.isValid(v)\<close>. A string is
  well-formed when it is 24 hex digits; an identifier object is accepted as it is;
  every other value counts as malformed.
\<close>

fun ObjectId_isValid :: "jsval \<Rightarrow> bool" where
  "ObjectId_isValid (JStr s) = checkForHexRegExp s"
| "ObjectId_isValid (JOid b) = True"
| "ObjectId_isValid v = False"

fun fromHex :: "string \<Rightarrow> nat list" where
  "fromHex (a # b # rest) = (16 * hexValue a + hexValue b) # fromHex rest"
| "fromHex rest = []"

definition invalidInput :: string where
  "invalidInput = ''input must be a 24 character hex string''"

text \<open>
  Modelled from the spec: the driver's constructor \<open>new ObjectId(v)\<close>, which reads the
  bytes of a well-formed value and throws on a malformed one.
\<close>

fun ObjectId_new :: "jsval \<Rightarrow> error + nat list" where
  "ObjectId_new (JStr s) =
     (if checkForHexRegExp s then Inr (fromHex s) else Inl (Error invalidInput))"
| "ObjectId_new (JOid b) = Inr b"
| "ObjectId_new v = Inl (Error invalidInput)"

text \<open>\<open>newId\<close>: generate/parse an identifier from a string.\<close>

definition newId :: "jsval \<Rightarrow> error + nat list" where
  "newId str =
     (if \<not> truthy str \<or> \<not> isString str \<or> \<not> ObjectId_isValid str
      then Inl (Error ''Invalid ObjectId string'')
      else ObjectId_new str)"

section \<open>Sort options\<close>

definition getSortOptions :: "jsval \<Rightarrow> jsval \<Rightarrow> (string \<times> int) list" where
  "getSortOptions sortBy type =
     (let sort = [] in
      if type = JStr ''user'' then
        (if sortBy = JStr ''givenName'' then
           (let sort = AList.update ''givenName'' 1 sort;
                sort = AList.update ''familyName'' 1 sort;
                sort = AList.update ''createdOn'' 1 sort
            in sort)
         else if sortBy = JStr ''familyName'' then
           (let sort = AList.update ''familyName'' 1 sort;
                sort = AList.update ''givenName'' 1 sort;
                sort = AList.update ''createdOn'' 1 sort
            in sort)
         else if sortBy = JStr ''role'' then
           (let sort = AList.update ''role'' 1 sort;
                sort = AList.update ''givenName'' 1 sort;
                sort = AList.update ''familyName'' 1 sort;
                sort = AList.update ''createdOn'' 1 sort
            in sort)
         else if sortBy = JStr ''newest'' then AList.update ''createdOn'' (- 1) sort
         else if sortBy = JStr ''oldest'' then AList.update ''createdOn'' 1 sort
         else AList.update ''givenName'' 1 sort)
      else if type = JStr ''bug'' then
        (if sortBy = JStr ''title'' then
           (let sort = AList.update ''title'' 1 sort;
                sort = AList.update ''createdOn'' (- 1) sort
            in sort)
         else if sortBy = JStr ''classification'' then
           (let sort = AList.update ''classification'' 1 sort;
                sort = AList.update ''createdOn'' (- 1) sort
            in sort)
         else if sortBy = JStr ''assignedToName'' then
           (let sort = AList.update ''assignedToName'' 1 sort;
                sort = AList.update ''createdOn'' (- 1) sort
            in sort)
         else if sortBy = JStr ''createdByName'' then
           (let sort = AList.update ''createdByName'' 1 sort;
                sort = AList.update ''createdOn'' (- 1) sort
            in sort)
         else if sortBy = JStr ''newest'' then AList.update ''createdOn'' (- 1) sort
         else if sortBy = JStr ''oldest'' then AList.update ''createdOn'' 1 sort
         else AList.update ''createdOn'' (- 1) sort)
      else sort)"

text \<open>The keywords of the user table of \<open>getSortOptions\<close>.\<close>

definition userSortKeywords :: "jsval list" where
  "userSortKeywords =
     [JStr ''givenName'', JStr ''familyName'', JStr ''role'', JStr ''newest'', JStr ''oldest'']"

section \<open>Dates\<close>

text \<open>
  A date object is its time value in milliseconds, read in local time, where
  \<open>setHours\<close>, \<open>getDate\<close> and \<open>setDate\<close> work. Time values are unbounded here.
  \<open>DateFromTime\<close> is the day of the month (1 to 31) in the proleptic Gregorian calendar,
  day 0 being 1 January 1970.
\<close>

definition msPerDay :: int where
  "msPerDay = 86400000"

definition Day :: "int \<Rightarrow> int" where
  "Day t = t div msPerDay"

definition TimeWithinDay :: "int \<Rightarrow> int" where
  "TimeWithinDay t = t mod msPerDay"

definition MakeDate :: "int \<Rightarrow> int \<Rightarrow> int" where
  "MakeDate day time = day * msPerDay + time"

definition DateFromTime :: "int \<Rightarrow> int" where
  "DateFromTime t =
     (let z = Day t + 719468;
          doe = z mod 146097;
          yoe = (doe - doe div 1460 + doe div 36524 - doe div 146096) div 365;
          doy = doe - (365 * yoe + yoe div 4 - yoe div 100);
          mp = (5 * doy + 2) div 153
      in doy - (153 * mp + 2) div 5 + 1)"

text \<open>\<open>d.setHours(0, 0, 0, 0)\<close>: the start of the day of \<open>t\<close>.\<close>

definition setHours0 :: "int \<Rightarrow> int" where
  "setHours0 t = MakeDate (Day t) 0"

text \<open>\<open>d.getDate()\<close>\<close>

definition getDate :: "int \<Rightarrow> int" where
  "getDate t = DateFromTime t"

text \<open>
  \<open>d.setDate(dt)\<close>: day \<open>dt\<close> counted from the first day of the month of \<open>t\<close> (day 1),
  the time within the day kept; \<open>dt\<close> may lie outside the month, also below 1.
\<close>

definition setDate :: "int \<Rightarrow> int \<Rightarrow> int" where
  "setDate t dt = MakeDate (Day t - (DateFromTime t - 1) + (dt - 1)) (TimeWithinDay t)"

section \<open>parseInt\<close>

text \<open>The value of a digit in radix up to 36, \<open>None\<close> for any other character.\<close>

definition digitValue :: "char \<Rightarrow> nat option" where
  "digitValue c =
     (let n = (of_char c :: nat)
      in if 48 \<le> n \<and> n \<le> 57 then Some (n - 48)
         else if 97 \<le> n \<and> n \<le> 122 then Some (n - 87)
         else if 65 \<le> n \<and> n \<le> 90 then Some (n - 55)
         else None)"

definition isRadixDigit :: "nat \<Rightarrow> char \<Rightarrow> bool" where
  "isRadixDigit R c = (case digitValue c of Some v \<Rightarrow> v < R | None \<Rightarrow> False)"

definition digitsValue :: "nat \<Rightarrow> string \<Rightarrow> nat" where
  "digitsValue R Z = foldl (\<lambda>acc c. acc * R + (case digitValue c of Some v \<Rightarrow> v | None \<Rightarrow> 0)) 0 Z"

text \<open>
  \<open>parseInt(string)\<close> with no radix, on a string: leading white space is skipped, a sign
  is read, a prefix \<open>0x\<close> or \<open>0X\<close> selects radix 16 (else 10), and the longest run of
  digits is the value; with no digit the result is \<open>NaN\<close>, here \<open>None\<close>.
\<close>

definition parseIntString :: "string \<Rightarrow> int option" where
  "parseIntString inputString =
     (let S = dropWhile isWhiteSpace inputString;
          sign = (if S \<noteq> [] \<and> hd S = CHR ''-'' then - 1 else (1::int));
          S = (if S \<noteq> [] \<and> (hd S = CHR ''+'' \<or> hd S = CHR ''-'') then tl S else S);
          hex = (take 2 S = ''0x'' \<or> take 2 S = ''0X'');
          R = (if hex then 16 else (10::nat));
          S = (if hex then drop 2 S else S);
          Z = takeWhile (isRadixDigit R) S
      in if Z = [] then None else Some (sign * int (digitsValue R Z)))"

text \<open>The decimal digits of a number, as \<open>String(n)\<close> writes an integer.\<close>

fun digitsOf :: "nat \<Rightarrow> string" where
  "digitsOf n =
     (if n < 10 then [''0123456789'' ! n]
      else digitsOf (n div 10) @ [''0123456789'' ! (n mod 10)])"

declare digitsOf.simps [simp del]

definition numberToString :: "int \<Rightarrow> string" where
  "numberToString n = (if n < 0 then CHR ''-'' # digitsOf (nat (- n)) else digitsOf (nat n))"

definition hexChar :: "nat \<Rightarrow> char" where
  "hexChar n = ''0123456789abcdef'' ! (n mod 16)"

definition toHexString :: "nat list \<Rightarrow> string" where
  "toHexString b = concat (map (\<lambda>x. [hexChar (x div 16), hexChar (x mod 16)]) b)"

text \<open>
  \<open>parseInt(v)\<close> converts its argument to a string first. \<open>undefined\<close>, \<open>null\<close>,
  \<open>true\<close>, \<open>false\<close> and \<open>NaN\<close> are written as these words and a date starts with the
  name of a weekday or is \<open>Invalid Date\<close>: none starts with a digit or a sign.
\<close>

fun parseInt :: "jsval \<Rightarrow> int option" where
  "parseInt (JStr s) = parseIntString s"
| "parseInt (JNum n) = parseIntString (numberToString n)"
| "parseInt (JOid b) = parseIntString (toHexString b)"
| "parseInt v = None"

text \<open>\<open>parseInt(v) || d\<close>: the default replaces \<open>NaN\<close> and zero, nothing else.\<close>

definition parseIntOr :: "jsval \<Rightarrow> int \<Rightarrow> int" where
  "parseIntOr v d = (case parseInt v of None \<Rightarrow> d | Some n \<Rightarrow> if n \<noteq> 0 then n else d)"


section \<open>The document store\<close>

text \<open>
  Modelled from the spec: the document store and its driver, which the repository
  calls and does not define. The state of the connection is \<open>Unreachable\<close> (connecting
  throws the message), \<open>Failing\<close> (connected, every operation on a collection rejects
  with the message) or \<open>Live\<close> with the documents of the \<open>Users\<close> collection in their
  stored order. The operations below are those that the user operations call:
  \<open>aggregate\<close>, \<open>countDocuments\<close>, \<open>findOne\<close> and \<open>updateOne\<close>.
\<close>

datatype db = Unreachable string | Failing string | Live "doc list"

definition connectToDatabase :: "db \<Rightarrow> error + db" where
  "connectToDatabase d = (case d of Unreachable m \<Rightarrow> Inl (Error m) | _ \<Rightarrow> Inr d)"

text \<open>
  What the store computes by itself is a parameter: the test of a regular expression
  (pattern, options, value of the field) and the order that a sort specification
  puts documents in.
\<close>

record engine =
  regexMatch :: "string \<Rightarrow> string \<Rightarrow> jsval \<Rightarrow> bool"
  sortDocs :: "(string \<times> int) list \<Rightarrow> doc list \<Rightarrow> doc list"

text \<open>The filter that \<open>GetAllUsers\<close> assembles: \<open>$or\<close>, \<open>role\<close> and \<open>createdOn\<close>, each optional.\<close>

record createdOnFilter =
  lte :: "int option"
  gte :: "int option"

record userMatch =
  m_or :: "(string \<times> jsval \<times> string) list option"
  m_role :: "jsval option"
  m_createdOn :: "createdOnFilter option"

text \<open>The query \<open>{k: v}\<close>; \<open>null\<close> and \<open>undefined\<close> match a missing field too.\<close>

definition fieldEquals :: "string \<Rightarrow> jsval \<Rightarrow> doc \<Rightarrow> bool" where
  "fieldEquals k v d =
     (if v = JUndefined \<or> v = JNull
      then getField d k = JUndefined \<or> getField d k = JNull
      else map_of d k = Some v)"

definition regexClause :: "engine \<Rightarrow> doc \<Rightarrow> string \<times> jsval \<times> string \<Rightarrow> bool" where
  "regexClause eng d c =
     (case c of (field, pattern, options) \<Rightarrow>
        (case pattern of JStr p \<Rightarrow> regexMatch eng p options (getField d field) | _ \<Rightarrow> False))"

definition inRange :: "createdOnFilter \<Rightarrow> int \<Rightarrow> bool" where
  "inRange f t =
     ((case lte f of None \<Rightarrow> True | Some u \<Rightarrow> t \<le> u) \<and>
      (case gte f of None \<Rightarrow> True | Some l \<Rightarrow> l \<le> t))"

definition matches :: "engine \<Rightarrow> userMatch \<Rightarrow> doc \<Rightarrow> bool" where
  "matches eng m d =
     ((case m_or m of None \<Rightarrow> True | Some cs \<Rightarrow> list_ex (regexClause eng d) cs) \<and>
      (case m_role m of None \<Rightarrow> True | Some r \<Rightarrow> fieldEquals ''role'' r d) \<and>
      (case m_createdOn m of None \<Rightarrow> True
       | Some f \<Rightarrow> (case getField d ''createdOn'' of JDate t \<Rightarrow> inRange f t | _ \<Rightarrow> False)))"

text \<open>The store rejects a \<open>$regex\<close> whose pattern is not a string.\<close>

definition matchWellFormed :: "userMatch \<Rightarrow> bool" where
  "matchWellFormed m =
     (case m_or m of None \<Rightarrow> True
      | Some cs \<Rightarrow> list_all (\<lambda>c. case c of (field, pattern, options) \<Rightarrow> isString pattern) cs)"

text \<open>
  The stages of an aggregation pipeline. The store rejects a negative \<open>$skip\<close> and a
  \<open>$limit\<close> that is not positive.
\<close>

datatype stage = Match userMatch | Sort "(string \<times> int) list" | Skip int | Limit int

fun runStage :: "engine \<Rightarrow> stage \<Rightarrow> doc list \<Rightarrow> error + doc list" where
  "runStage eng (Match m) ds =
     (if matchWellFormed m then Inr (filter (matches eng m) ds)
      else Inl (Error ''$regex has to be a string''))"
| "runStage eng (Sort s) ds = Inr (sortDocs eng s ds)"
| "runStage eng (Skip n) ds =
     (if n < 0 then Inl (Error ''Argument to $skip cannot be negative'')
      else Inr (drop (nat n) ds))"
| "runStage eng (Limit n) ds =
     (if n \<le> 0 then Inl (Error ''the limit must be positive'')
      else Inr (take (nat n) ds))"

fun runPipeline :: "engine \<Rightarrow> stage list \<Rightarrow> doc list \<Rightarrow> error + doc list" where
  "runPipeline eng [] ds = Inr ds"
| "runPipeline eng (st # sts) ds =
     (case runStage eng st ds of Inl e \<Rightarrow> Inl e | Inr ds' \<Rightarrow> runPipeline eng sts ds')"

text \<open>The operations on the \<open>Users\<close> collection that the entity operations call.\<close>

definition aggregate :: "engine \<Rightarrow> db \<Rightarrow> stage list \<Rightarrow> error + doc list" where
  "aggregate eng d pipeline =
     (case d of Live ds \<Rightarrow> runPipeline eng pipeline ds
      | Failing m \<Rightarrow> Inl (Error m)
      | Unreachable m \<Rightarrow> Inl (Error m))"

definition countDocuments :: "engine \<Rightarrow> db \<Rightarrow> userMatch \<Rightarrow> error + int" where
  "countDocuments eng d m =
     (case d of
        Live ds \<Rightarrow>
          (if matchWellFormed m then Inr (int (length (filter (matches eng m) ds)))
           else Inl (Error ''$regex has to be a string''))
      | Failing msg \<Rightarrow> Inl (Error msg)
      | Unreachable msg \<Rightarrow> Inl (Error msg))"

definition findOne :: "db \<Rightarrow> (doc \<Rightarrow> bool) \<Rightarrow> error + doc option" where
  "findOne d q =
     (case d of Live ds \<Rightarrow> Inr (find q ds)
      | Failing m \<Rightarrow> Inl (Error m)
      | Unreachable m \<Rightarrow> Inl (Error m))"

text \<open>
  \<open>updateOne(q, {$set: changes})\<close> writes the fields of \<open>changes\<close> into the first document that
  matches and leaves every other field and document as it was.
\<close>

record updateResult =
  matchedCount :: nat
  modifiedCount :: nat

definition setFields :: "doc \<Rightarrow> doc \<Rightarrow> doc" where
  "setFields d changes = foldl (\<lambda>acc (k, v). AList.update k v acc) d changes"

fun setFirst :: "(doc \<Rightarrow> bool) \<Rightarrow> doc \<Rightarrow> doc list \<Rightarrow> doc list \<times> updateResult" where
  "setFirst q changes [] = ([], \<lparr>matchedCount = 0, modifiedCount = 0\<rparr>)"
| "setFirst q changes (d # ds) =
     (if q d then
        (let d' = setFields d changes
         in (d' # ds, \<lparr>matchedCount = 1, modifiedCount = (if d' = d then 0 else 1)\<rparr>))
      else (let (ds', r) = setFirst q changes ds in (d # ds', r)))"

definition updateOne :: "db \<Rightarrow> (doc \<Rightarrow> bool) \<Rightarrow> doc \<Rightarrow> error + updateResult \<times> db" where
  "updateOne d q changes =
     (case d of
        Live ds \<Rightarrow> (let (ds', r) = setFirst q changes ds in Inr (r, Live ds'))
      | Failing m \<Rightarrow> Inl (Error m)
      | Unreachable m \<Rightarrow> Inl (Error m))"

section \<open>User operations\<close>

subsection \<open>GetAllUsers\<close>

text \<open>
  The parameter object of \<open>GetAllUsers\<close>; a property that the caller leaves out is
  \<open>undefined\<close>. \<open>keywordsArg\<close> is the property \<open>keywords\<close>; \<open>pageSizeArg\<close> and
  \<open>pageNumberArg\<close> are \<open>pageSize\<close> and \<open>pageNumber\<close> as passed, before the defaults 5
  and 1 of the parameter list apply.
\<close>

record query =
  keywordsArg :: jsval
  role :: jsval
  maxAge :: jsval
  minAge :: jsval
  sortBy :: jsval
  pageSizeArg :: jsval
  pageNumberArg :: jsval

record listing =
  users :: "doc list"
  totalUsers :: int
  totalPages :: int
  pageNumber :: int
  pageSize :: int

text \<open>A default of a destructured parameter applies to \<open>undefined\<close> only.\<close>

definition withDefault :: "jsval \<Rightarrow> jsval \<Rightarrow> jsval" where
  "withDefault v d = (if v = JUndefined then d else v)"

text \<open>
  The age filter. \<open>typeof a === 'number' && a > 0\<close> holds of a number above zero and of
  nothing else (\<open>NaN > 0\<close> is false).
\<close>

definition GetAllUsers_createdOnFilter :: "int \<Rightarrow> query \<Rightarrow> createdOnFilter" where
  "GetAllUsers_createdOnFilter now q =
     (let today = setHours0 now;
          createdOnFilter = \<lparr>lte = None, gte = None\<rparr>;
          createdOnFilter =
            (case minAge q of
               JNum n \<Rightarrow>
                 if n > 0 then
                   (let minCreatedDate = today;
                        minCreatedDate = setDate minCreatedDate (getDate minCreatedDate - n)
                    in createdOnFilter\<lparr>lte := Some minCreatedDate\<rparr>)
                 else createdOnFilter
             | _ \<Rightarrow> createdOnFilter);
          createdOnFilter =
            (case maxAge q of
               JNum n \<Rightarrow>
                 if n > 0 then
                   (let maxCreatedDate = today;
                        maxCreatedDate = setDate maxCreatedDate (getDate maxCreatedDate - n)
                    in createdOnFilter\<lparr>gte := Some maxCreatedDate\<rparr>)
                 else createdOnFilter
             | _ \<Rightarrow> createdOnFilter)
      in createdOnFilter)"

definition GetAllUsers_match :: "int \<Rightarrow> query \<Rightarrow> userMatch" where
  "GetAllUsers_match now q =
     (let match = \<lparr>m_or = None, m_role = None, m_createdOn = None\<rparr>;
          match =
            (if truthy (keywordsArg q) then
               match\<lparr>m_or := Some [(''givenName'', keywordsArg q, ''i''),
                                   (''familyName'', keywordsArg q, ''i''),
                                   (''email'', keywordsArg q, ''i'')]\<rparr>
             else match);
          match = (if truthy (role q) then match\<lparr>m_role := Some (role q)\<rparr> else match);
          createdOnFilter = GetAllUsers_createdOnFilter now q;
          match =
            (if lte createdOnFilter \<noteq> None \<or> gte createdOnFilter \<noteq> None
             then match\<lparr>m_createdOn := Some createdOnFilter\<rparr>
             else match)
      in match)"

text \<open>Pagination: the page number and page size in effect, and what is skipped and kept.\<close>

definition GetAllUsers_pageNumber :: "query \<Rightarrow> int" where
  "GetAllUsers_pageNumber q = parseIntOr (withDefault (pageNumberArg q) (JNum 1)) 1"

definition GetAllUsers_pageSize :: "query \<Rightarrow> int" where
  "GetAllUsers_pageSize q = parseIntOr (withDefault (pageSizeArg q) (JNum 5)) 5"

definition GetAllUsers_skip :: "query \<Rightarrow> int" where
  "GetAllUsers_skip q = (GetAllUsers_pageNumber q - 1) * GetAllUsers_pageSize q"

definition GetAllUsers_limit :: "query \<Rightarrow> int" where
  "GetAllUsers_limit q = GetAllUsers_pageSize q"

definition GetAllUsers_pipeline :: "int \<Rightarrow> query \<Rightarrow> stage list" where
  "GetAllUsers_pipeline now q =
     (let sortOptions = getSortOptions (sortBy q) (JStr ''user'')
      in [Match (GetAllUsers_match now q)]
         @ (if sortOptions \<noteq> [] then [Sort sortOptions] else [])
         @ [Skip (GetAllUsers_skip q), Limit (GetAllUsers_limit q)])"

text \<open>
  \<open>GetAllUsers\<close> on a store \<open>d\<close> at the time \<open>now\<close>. Every failure inside its \<open>try\<close>
  block, connecting included, is thrown again with the prefix of the operation.
\<close>

definition GetAllUsers :: "engine \<Rightarrow> db \<Rightarrow> int \<Rightarrow> query \<Rightarrow> error + listing" where
  "GetAllUsers eng d now q =
     (case connectToDatabase d of
        Inl (Error m) \<Rightarrow> Inl (Error (''Failed to get users: '' @ m))
      | Inr conn \<Rightarrow>
          (case aggregate eng conn (GetAllUsers_pipeline now q) of
             Inl (Error m) \<Rightarrow> Inl (Error (''Failed to get users: '' @ m))
           | Inr us \<Rightarrow>
               (case countDocuments eng conn (GetAllUsers_match now q) of
                  Inl (Error m) \<Rightarrow> Inl (Error (''Failed to get users: '' @ m))
                | Inr count \<Rightarrow>
                    Inr \<lparr>users = us,
                         totalUsers = count,
                         totalPages =
                           \<lceil>real_of_int count / real_of_int (GetAllUsers_pageSize q)\<rceil>,
                         pageNumber = GetAllUsers_pageNumber q,
                         pageSize = GetAllUsers_pageSize q\<rparr>)))"

subsection \<open>GetUserById, GetUserByEmail\<close>

text \<open>The projection \<open>{password: 0}\<close> drops the field from the result; \<open>None\<close> is \<open>null\<close>.\<close>

definition GetUserById :: "db \<Rightarrow> jsval \<Rightarrow> error + doc option" where
  "GetUserById d ident =
     (if \<not> ObjectId_isValid ident then Inl (Error ''Invalid ObjectId format'')
      else
        (case connectToDatabase d of
           Inl e \<Rightarrow> Inl e
         | Inr conn \<Rightarrow>
             (case ObjectId_new ident of
                Inl e \<Rightarrow> Inl e
              | Inr objectId \<Rightarrow>
                  (case findOne conn (fieldEquals ''_id'' (JOid objectId)) of
                     Inl (Error m) \<Rightarrow> Inl (Error (''Failed to get user by ID: '' @ m))
                   | Inr user \<Rightarrow> Inr (map_option (AList.delete ''password'') user)))))"

definition GetUserByEmail :: "db \<Rightarrow> string \<Rightarrow> error + doc option" where
  "GetUserByEmail d email =
     (case connectToDatabase d of
        Inl e \<Rightarrow> Inl e
      | Inr conn \<Rightarrow>
          (let cleanEmail = toLowerCase (trim email)
           in case findOne conn (fieldEquals ''email'' (JStr cleanEmail)) of
                Inl (Error m) \<Rightarrow> Inl (Error (''Failed to get user by email: '' @ m))
              | Inr user \<Rightarrow> Inr user))"

subsection \<open>RegisterUser\<close>

text \<open>
  \<open>RegisterUser\<close> with the fresh identifier and the time that \<open>new ObjectId()\<close> and
  \<open>new Date()\<close> give it. After building \<open>newUser\<close> the function returns the value of
  \<open>resourceLimits\<close>, a name that nothing declares: reading it throws a
  \<open>ReferenceError\<close>, which the \<open>catch\<close> throws again. No call writes to the store,
  which is returned as it was.
\<close>

definition RegisterUser :: "db \<Rightarrow> doc \<Rightarrow> nat list \<Rightarrow> int \<Rightarrow> (error + jsval) \<times> db" where
  "RegisterUser d user freshId now =
     (case connectToDatabase d of
        Inl e \<Rightarrow> (Inl e, d)
      | Inr conn \<Rightarrow>
          (case findOne conn (fieldEquals ''email'' (getField user ''email'')) of
             Inl (Error m) \<Rightarrow> (Inl (Error (''Failed to register user: '' @ m)), d)
           | Inr (Some existingUser) \<Rightarrow>
               (Inl (Error (''Failed to register user: '' @ ''User with this email already exists'')), d)
           | Inr None \<Rightarrow>
               (let newUser =
                      AList.update ''createdOn'' (JDate now) (AList.update ''_id'' (JOid freshId) user)
                in (Inl (Error (''Failed to register user: '' @ ''resourceLimits is not defined'')), d))))"

subsection \<open>UpdateUser\<close>

text \<open>\<open>const { _id, ...updateFields } = updatedUser\<close>: every property but \<open>_id\<close>.\<close>

definition UpdateUser_updateFields :: "doc \<Rightarrow> doc" where
  "UpdateUser_updateFields updatedUser = AList.delete ''_id'' updatedUser"

definition UpdateUser :: "db \<Rightarrow> doc \<Rightarrow> (error + updateResult) \<times> db" where
  "UpdateUser d updatedUser =
     (case connectToDatabase d of
        Inl e \<Rightarrow> (Inl e, d)
      | Inr conn \<Rightarrow>
          (let ident = getField updatedUser ''_id'';
               updateFields = UpdateUser_updateFields updatedUser
           in if \<not> ObjectId_isValid ident
              then (Inl (Error (''Failed to update user: '' @ ''Invalid ObjectId format'')), d)
              else
                (case ObjectId_new ident of
                   Inl (Error m) \<Rightarrow> (Inl (Error (''Failed to update user: '' @ m)), d)
                 | Inr objectId \<Rightarrow>
                     (case updateOne conn (fieldEquals ''_id'' (JOid objectId)) updateFields of
                        Inl (Error m) \<Rightarrow> (Inl (Error (''Failed to update user: '' @ m)), d)
                      | Inr (result, d') \<Rightarrow> (Inr result, d')))))"

section \<open>Validation middleware\<close>

text \<open>An entry of the \<open>errors\<close> array of the response, and a violation as the validator reports it.\<close>

record errorEntry =
  message :: string
  path :: "string list"
  type :: string

record violation = errorEntry +
  ctx :: doc

text \<open>
  Modelled from the spec: the schema validator (the library \<open>Joi\<close>), which the
  repository imports and does not define. An object schema lists its keys, each with
  the schema of the value under it: given the \<open>abortEarly\<close> preference and the value
  (\<open>undefined\<close> for a missing key), a key's schema reports its violations and the
  sanitized or defaulted value (\<open>undefined\<close> to leave the key out). Validating an object
  runs the keys in the order of the schema. A field of the body that the schema does
  not list is stripped under \<open>stripUnknown\<close> and is a violation otherwise. Every
  violation is collected, unless \<open>abortEarly\<close> stops at the first. The \<open>error\<close> of the
  result is \<open>undefined\<close>, here \<open>None\<close>, when there is no violation.
\<close>

type_synonym keySchema = "bool \<Rightarrow> jsval \<Rightarrow> violation list \<times> jsval"

type_synonym objectSchema = "(string \<times> keySchema) list"

record validateOptions =
  abortEarly :: bool
  stripUnknown :: bool

definition keyViolations :: "bool \<Rightarrow> doc \<Rightarrow> string \<times> keySchema \<Rightarrow> violation list" where
  "keyViolations early b ks = (case ks of (k, child) \<Rightarrow> fst (child early (getField b k)))"

definition keyValue :: "bool \<Rightarrow> doc \<Rightarrow> doc \<Rightarrow> string \<times> keySchema \<Rightarrow> doc" where
  "keyValue early b v ks =
     (case ks of (k, child) \<Rightarrow>
        (let r = snd (child early (getField b k))
         in if r \<noteq> JUndefined then AList.update k r v else v))"

definition unknownKeys :: "objectSchema \<Rightarrow> doc \<Rightarrow> string list" where
  "unknownKeys schema b = filter (\<lambda>k. k \<notin> fst ` set schema) (map fst b)"

definition notAllowed :: "string \<Rightarrow> violation" where
  "notAllowed k =
     \<lparr>message = [CHR 0x22] @ k @ [CHR 0x22] @ '' is not allowed'',
      path = [k], type = ''object.unknown'', ctx = [(''key'', JStr k)]\<rparr>"

definition Joi_validate ::
  "objectSchema \<Rightarrow> doc \<Rightarrow> validateOptions \<Rightarrow> violation list option \<times> doc" where
  "Joi_validate schema b opts =
     (let early = abortEarly opts;
          fromKeys = concat (map (keyViolations early b) schema);
          v = foldl (keyValue early b) b schema;
          unknown = unknownKeys schema b;
          v = (if stripUnknown opts then foldl (\<lambda>acc k. AList.delete k acc) v unknown else v);
          details = (if stripUnknown opts then fromKeys else fromKeys @ map notAllowed unknown);
          details = (if early then take 1 details else details)
      in (if details = [] then None else Some details, v))"

text \<open>
  The middleware \<open>validBody(schema)\<close> on a request: it answers with status 400 and the
  \<open>errors\<close> array, or hands the request with its new body on to the route handler.
\<close>

record request =
  body :: doc

datatype outcome = Respond nat "errorEntry list" | Next request

definition validBody :: "objectSchema \<Rightarrow> request \<Rightarrow> outcome" where
  "validBody schema req =
     (case Joi_validate schema (body req) \<lparr>abortEarly = False, stripUnknown = True\<rparr> of
        (Some details, v) \<Rightarrow>
          (let messages =
                 map (\<lambda>err. \<lparr>message = message err, path = path err, type = type err\<rparr>) details
           in Respond 400 messages)
      | (None, v) \<Rightarrow> Next (req\<lparr>body := v\<rparr>))"

text \<open>The key schema \<open>Joi.any().required()\<close> under the key \<open>k\<close>: the value must be there.\<close>

definition required :: "string \<Rightarrow> keySchema" where
  "required k early v =
     (if v = JUndefined then
        ([\<lparr>message = [CHR 0x22] @ k @ [CHR 0x22] @ '' is required'',
           path = [k], type = ''any.required'', ctx = [(''key'', JStr k)]\<rparr>], v)
      else ([], v))"

section \<open>Properties of the identifier codec and the sort options\<close>

lemma isHexChar_iff: "isHexChar c \<longleftrightarrow> c \<in> set ''0123456789abcdefABCDEF''"
  by (cases c) (simp add: isHexChar_def; (auto)[1])

lemma checkForHexRegExp_iff:
  "checkForHexRegExp s \<longleftrightarrow> length s = 24 \<and> (\<forall>c\<in>set s. c \<in> set ''0123456789abcdefABCDEF'')"
  unfolding checkForHexRegExp_def list_all_iff isHexChar_iff by (rule refl)

lemma length_fromHex: "length (fromHex s) = length s div 2"
  by (induction s rule: fromHex.induct) simp_all

lemma checkForHexRegExp_nonempty: "checkForHexRegExp s \<Longrightarrow> s \<noteq> []"
  by (auto simp: checkForHexRegExp_def)

lemma ObjectId_new_valid: "ObjectId_isValid v \<Longrightarrow> \<exists>b. ObjectId_new v = Inr b"
  by (cases v) simp_all

lemma ObjectId_new_Inr: "ObjectId_new v = Inr b \<Longrightarrow> ObjectId_isValid v"
  by (cases v) (auto split: if_splits)

text \<open>A value that is not a string is refused before the driver is asked.\<close>

lemma newId_non_string: "\<not> isString v \<Longrightarrow> newId v = Inl (Error ''Invalid ObjectId string'')"
  by (simp add: newId_def)

text \<open>
  C7: for every string of 24 hex digits \<open>newId\<close> produces an identifier (of twelve
  bytes); for every other string it fails with the error \<open>Invalid ObjectId string\<close>.
\<close>

theorem newId_codec:
  "(length s = 24 \<and> (\<forall>c\<in>set s. c \<in> set ''0123456789abcdefABCDEF'')
      \<longrightarrow> newId (JStr s) = Inr (fromHex s) \<and> length (fromHex s) = 12)
   \<and> (\<not> (length s = 24 \<and> (\<forall>c\<in>set s. c \<in> set ''0123456789abcdefABCDEF''))
      \<longrightarrow> newId (JStr s) = Inl (Error ''Invalid ObjectId string''))"
proof (cases "checkForHexRegExp s")
  case True
  then have "s \<noteq> []" by (rule checkForHexRegExp_nonempty)
  with True have "newId (JStr s) = Inr (fromHex s)" by (simp add: newId_def)
  moreover from True have "length (fromHex s) = 12"
    by (simp add: length_fromHex checkForHexRegExp_def)
  ultimately show ?thesis using True unfolding checkForHexRegExp_iff by blast
next
  case False
  then have "newId (JStr s) = Inl (Error ''Invalid ObjectId string'')" by (simp add: newId_def)
  then show ?thesis using False unfolding checkForHexRegExp_iff by blast
qed

theorem newId_codec_witness:
  "newId (JStr ''507f1f77bcf86cd799439011'')
     = Inr [80, 127, 31, 119, 188, 248, 108, 215, 153, 67, 144, 17]
   \<and> newId (JStr ''507f1f77bcf86cd79943901'') = Inl (Error ''Invalid ObjectId string'')
   \<and> newId (JStr ''507f1f77bcf86cd79943901z'') = Inl (Error ''Invalid ObjectId string'')
   \<and> newId (JStr '''') = Inl (Error ''Invalid ObjectId string'')"
proof -
  have ok: "length ''507f1f77bcf86cd799439011'' = 24
      \<and> (\<forall>c\<in>set ''507f1f77bcf86cd799439011''. c \<in> set ''0123456789abcdefABCDEF'')"
    by simp
  have short: "\<not> (length ''507f1f77bcf86cd79943901'' = 24
      \<and> (\<forall>c\<in>set ''507f1f77bcf86cd79943901''. c \<in> set ''0123456789abcdefABCDEF''))"
    by simp
  have letter: "\<not> (length ''507f1f77bcf86cd79943901z'' = 24
      \<and> (\<forall>c\<in>set ''507f1f77bcf86cd79943901z''. c \<in> set ''0123456789abcdefABCDEF''))"
    by simp
  have empty: "\<not> (length '''' = 24 \<and> (\<forall>c\<in>set ''''. c \<in> set ''0123456789abcdefABCDEF''))"
    by simp
  have bytes: "fromHex ''507f1f77bcf86cd799439011''
      = [80, 127, 31, 119, 188, 248, 108, 215, 153, 67, 144, 17]"
    by (simp add: hexValue_def)
  from newId_codec [of "''507f1f77bcf86cd799439011''"] ok
  have 1: "newId (JStr ''507f1f77bcf86cd799439011'') = Inr (fromHex ''507f1f77bcf86cd799439011'')"
    by blast
  from newId_codec [of "''507f1f77bcf86cd79943901''"] short
  have 2: "newId (JStr ''507f1f77bcf86cd79943901'') = Inl (Error ''Invalid ObjectId string'')"
    by blast
  from newId_codec [of "''507f1f77bcf86cd79943901z''"] letter
  have 3: "newId (JStr ''507f1f77bcf86cd79943901z'') = Inl (Error ''Invalid ObjectId string'')"
    by blast
  from newId_codec [of "''''"] empty
  have 4: "newId (JStr '''') = Inl (Error ''Invalid ObjectId string'')"
    by blast
  from 1 2 3 4 bytes show ?thesis by (simp only:) 
qed

text \<open>
  C3: \<open>getSortOptions('newest', 'bug')\<close> is exactly \<open>{createdOn: -1}\<close>,
  \<open>getSortOptions('title', 'bug')\<close> is exactly \<open>{title: 1, createdOn: -1}\<close>, and
  every keyword outside the user table gives exactly \<open>{givenName: 1}\<close> for \<open>'user'\<close>.
\<close>

theorem getSortOptions_table:
  "getSortOptions (JStr ''newest'') (JStr ''bug'') = [(''createdOn'', - 1)]
   \<and> getSortOptions (JStr ''title'') (JStr ''bug'') = [(''title'', 1), (''createdOn'', - 1)]
   \<and> (\<forall>sortBy. sortBy \<notin> set userSortKeywords \<longrightarrow>
         getSortOptions sortBy (JStr ''user'') = [(''givenName'', 1)])"
  by (simp add: getSortOptions_def userSortKeywords_def)

theorem getSortOptions_table_witness:
  "JStr ''email'' \<notin> set userSortKeywords
   \<and> getSortOptions (JStr ''email'') (JStr ''user'') = [(''givenName'', 1)]
   \<and> JUndefined \<notin> set userSortKeywords
   \<and> getSortOptions JUndefined (JStr ''user'') = [(''givenName'', 1)]"
proof -
  have 1: "JStr ''email'' \<notin> set userSortKeywords" by (simp add: userSortKeywords_def)
  have 2: "JUndefined \<notin> set userSortKeywords" by (simp add: userSortKeywords_def)
  from getSortOptions_table 1 2 show ?thesis by blast
qed

section \<open>Properties of the user operations\<close>

lemma find_None_list_ex: "\<not> list_ex q ds \<Longrightarrow> find q ds = None"
  by (simp add: find_None_iff list_ex_iff)

lemma map_of_delete_self: "map_of (AList.delete k d) k = None"
  by (simp add: delete_conv')

text \<open>
  C6: \<open>GetUserById\<close> checks the shape of the identifier before anything else. A
  malformed identifier fails with \<open>Invalid ObjectId format\<close> whatever the state of the
  store, which is not consulted; a well-formed identifier that no stored document
  carries gives \<open>null\<close> and no error; a document that is returned has no \<open>password\<close>
  field.
\<close>

theorem GetUserById_contract:
  "(\<not> ObjectId_isValid ident \<longrightarrow> GetUserById d ident = Inl (Error ''Invalid ObjectId format''))
   \<and> (ObjectId_isValid ident \<and> ObjectId_new ident = Inr objectId
        \<and> \<not> list_ex (fieldEquals ''_id'' (JOid objectId)) ds
        \<longrightarrow> GetUserById (Live ds) ident = Inr None)
   \<and> (GetUserById d ident = Inr (Some user) \<longrightarrow> map_of user ''password'' = None)"
proof (intro conjI impI)
  assume "\<not> ObjectId_isValid ident"
  then show "GetUserById d ident = Inl (Error ''Invalid ObjectId format'')"
    by (simp add: GetUserById_def)
next
  assume a: "ObjectId_isValid ident \<and> ObjectId_new ident = Inr objectId
        \<and> \<not> list_ex (fieldEquals ''_id'' (JOid objectId)) ds"
  then have "find (fieldEquals ''_id'' (JOid objectId)) ds = None"
    by (simp add: find_None_list_ex)
  with a show "GetUserById (Live ds) ident = Inr None"
    by (simp add: GetUserById_def connectToDatabase_def findOne_def)
next
  assume "GetUserById d ident = Inr (Some user)"
  then obtain u where "user = AList.delete ''password'' u"
    by (auto simp: GetUserById_def split: if_splits sum.splits error.splits)
  then show "map_of user ''password'' = None"
    by (simp add: map_of_delete_self)
qed

theorem GetUserById_contract_witness:
  "GetUserById (Unreachable ''connect ECONNREFUSED'') (JStr ''42'')
     = Inl (Error ''Invalid ObjectId format'')
   \<and> GetUserById
        (Live [[(''_id'', JOid [80, 127, 31, 119, 188, 248, 108, 215, 153, 67, 144, 17]),
                (''email'', JStr ''ann@example.com''), (''password'', JStr ''secret1'')]])
        (JStr ''ffffffffffffffffffffffff'')
     = Inr None
   \<and> GetUserById
        (Live [[(''_id'', JOid [80, 127, 31, 119, 188, 248, 108, 215, 153, 67, 144, 17]),
                (''email'', JStr ''ann@example.com''), (''password'', JStr ''secret1'')]])
        (JStr ''507F1F77BCF86CD799439011'')
     = Inr (Some [(''_id'', JOid [80, 127, 31, 119, 188, 248, 108, 215, 153, 67, 144, 17]),
                  (''email'', JStr ''ann@example.com'')])
   \<and> map_of [(''_id'', JOid [80, 127, 31, 119, 188, 248, 108, 215, 153, 67, 144, 17]),
              (''email'', JStr ''ann@example.com'')] ''password'' = None"
proof -
  let ?oid = "[80, 127, 31, 119, 188, 248, 108, 215, 153, 67, 144, 17] :: nat list"
  let ?ds = "[[(''_id'', JOid ?oid), (''email'', JStr ''ann@example.com''),
               (''password'', JStr ''secret1'')]]"
  let ?shown = "[(''_id'', JOid ?oid), (''email'', JStr ''ann@example.com'')]"
  have bad: "\<not> ObjectId_isValid (JStr ''42'')"
    by (simp add: checkForHexRegExp_def)
  have absent: "ObjectId_isValid (JStr ''ffffffffffffffffffffffff'')
      \<and> ObjectId_new (JStr ''ffffffffffffffffffffffff'')
          = Inr [255, 255, 255, 255, 255, 255, 255, 255, 255, 255, 255, 255]
      \<and> \<not> list_ex (fieldEquals ''_id''
            (JOid [255, 255, 255, 255, 255, 255, 255, 255, 255, 255, 255, 255])) ?ds"
    by (simp add: checkForHexRegExp_def isHexChar_def hexValue_def fieldEquals_def)
  have found: "GetUserById (Live ?ds) (JStr ''507F1F77BCF86CD799439011'') = Inr (Some ?shown)"
    by (simp add: GetUserById_def checkForHexRegExp_def isHexChar_def hexValue_def
        connectToDatabase_def findOne_def fieldEquals_def)
  from GetUserById_contract [of "JStr ''42''" "Unreachable ''connect ECONNREFUSED''"] bad
  have 1: "GetUserById (Unreachable ''connect ECONNREFUSED'') (JStr ''42'')
      = Inl (Error ''Invalid ObjectId format'')"
    by blast
  from GetUserById_contract [of "JStr ''ffffffffffffffffffffffff''" _
      "[255, 255, 255, 255, 255, 255, 255, 255, 255, 255, 255, 255]" ?ds] absent
  have 2: "GetUserById (Live ?ds) (JStr ''ffffffffffffffffffffffff'') = Inr None"
    by blast
  from GetUserById_contract [of "JStr ''507F1F77BCF86CD799439011''" "Live ?ds" _ _ ?shown] found
  have 3: "map_of ?shown ''password'' = None"
    by blast
  from 1 2 3 found show ?thesis by (simp only:)
qed

lemma map_of_setFields:
  "k \<notin> fst ` set changes \<Longrightarrow> map_of (setFields d changes) k = map_of d k"
  unfolding setFields_def
proof (induction changes arbitrary: d)
  case Nil
  then show ?case by simp
next
  case (Cons c cs)
  obtain k' v' where c: "c = (k', v')" by (cases c)
  with Cons.prems have "k' \<noteq> k" and "k \<notin> fst ` set cs" by auto
  then show ?case using Cons.IH [of "AList.update k' v' d"] c
    by (simp add: update_conv')
qed

lemma setFirst_ids:
  "k \<notin> fst ` set changes \<Longrightarrow>
   map (\<lambda>x. map_of x k) (fst (setFirst q changes ds)) = map (\<lambda>x. map_of x k) ds"
  by (induction ds) (auto simp: map_of_setFields Let_def split: prod.splits)

lemma updateOne_ids:
  assumes "k \<notin> fst ` set changes"
  shows "\<exists>r ds'. updateOne (Live ds) q changes = Inr (r, Live ds')
           \<and> map (\<lambda>x. map_of x k) ds' = map (\<lambda>x. map_of x k) ds"
proof -
  obtain ds' r where s: "setFirst q changes ds = (ds', r)" by (cases "setFirst q changes ds")
  with setFirst_ids [OF assms, of q ds] have "map (\<lambda>x. map_of x k) ds' = map (\<lambda>x. map_of x k) ds"
    by simp
  with s show ?thesis by (simp add: updateOne_def)
qed

lemma updateFields_no_id: "''_id'' \<notin> fst ` set (UpdateUser_updateFields u)"
  by (simp add: UpdateUser_updateFields_def delete_notin_dom)

text \<open>
  C9: \<open>UpdateUser\<close> takes \<open>_id\<close> out of the update payload before the partial
  replacement: \<open>_id\<close> is not among the fields that \<open>$set\<close> writes, and after the
  update every stored document carries the identifier it had before, for every input
  document and every state of the store.
\<close>

theorem UpdateUser_keeps_id:
  "map_of (UpdateUser_updateFields updatedUser) ''_id'' = None
   \<and> ''_id'' \<notin> fst ` set (UpdateUser_updateFields updatedUser)
   \<and> (\<exists>ds'. snd (UpdateUser (Live ds) updatedUser) = Live ds'
          \<and> map (\<lambda>x. map_of x ''_id'') ds' = map (\<lambda>x. map_of x ''_id'') ds)
   \<and> snd (UpdateUser (Failing m) updatedUser) = Failing m
   \<and> snd (UpdateUser (Unreachable m) updatedUser) = Unreachable m"
proof (intro conjI)
  show "map_of (UpdateUser_updateFields updatedUser) ''_id'' = None"
    by (simp add: UpdateUser_updateFields_def map_of_delete_self)
next
  show "''_id'' \<notin> fst ` set (UpdateUser_updateFields updatedUser)"
    by (rule updateFields_no_id)
next
  show "\<exists>ds'. snd (UpdateUser (Live ds) updatedUser) = Live ds'
          \<and> map (\<lambda>x. map_of x ''_id'') ds' = map (\<lambda>x. map_of x ''_id'') ds"
  proof (cases "ObjectId_new (getField updatedUser ''_id'')")
    case (Inl e)
    then show ?thesis
      by (cases e) (simp add: UpdateUser_def connectToDatabase_def Let_def)
  next
    case (Inr objectId)
    from updateOne_ids [OF updateFields_no_id, of ds "fieldEquals ''_id'' (JOid objectId)" updatedUser]
    obtain r ds' where
      u: "updateOne (Live ds) (fieldEquals ''_id'' (JOid objectId))
            (UpdateUser_updateFields updatedUser) = Inr (r, Live ds')"
      and i: "map (\<lambda>x. map_of x ''_id'') ds' = map (\<lambda>x. map_of x ''_id'') ds"
      by blast
    show ?thesis
    proof (cases "ObjectId_isValid (getField updatedUser ''_id'')")
      case True
      with Inr u i show ?thesis
        by (simp add: UpdateUser_def connectToDatabase_def Let_def)
    next
      case False
      then show ?thesis
        by (simp add: UpdateUser_def connectToDatabase_def Let_def)
    qed
  qed
next
  show "snd (UpdateUser (Failing m) updatedUser) = Failing m"
    by (auto simp: UpdateUser_def connectToDatabase_def updateOne_def Let_def
        split: sum.splits error.splits prod.splits)
next
  show "snd (UpdateUser (Unreachable m) updatedUser) = Unreachable m"
    by (simp add: UpdateUser_def connectToDatabase_def)
qed

text \<open>An update that names a stored user changes the named fields of that document only.\<close>

lemma UpdateUser_example:
  "UpdateUser
     (Live [[(''_id'', JOid [80, 127, 31, 119, 188, 248, 108, 215, 153, 67, 144, 17]),
             (''givenName'', JStr ''Ann'')]])
     [(''_id'', JStr ''507f1f77bcf86cd799439011''), (''givenName'', JStr ''Anna'')]
   = (Inr \<lparr>matchedCount = 1, modifiedCount = 1\<rparr>,
      Live [[(''_id'', JOid [80, 127, 31, 119, 188, 248, 108, 215, 153, 67, 144, 17]),
             (''givenName'', JStr ''Anna'')]])"
  by (simp add: UpdateUser_def UpdateUser_updateFields_def connectToDatabase_def getField_def
      checkForHexRegExp_def isHexChar_def hexValue_def updateOne_def fieldEquals_def
      setFields_def)

lemma RegisterUser_store: "snd (RegisterUser d user freshId now) = d"
  by (auto simp: RegisterUser_def Let_def split: sum.splits error.splits option.splits)

lemma RegisterUser_fails: "\<exists>e. fst (RegisterUser d user freshId now) = Inl e"
  by (auto simp: RegisterUser_def Let_def split: sum.splits error.splits option.splits)

text \<open>
  C1: registering a valid user should persist the document, so that fetching by email
  afterwards returns it. On an empty store, registering \<open>Ann@Example.com\<close> ends in the
  error of the undeclared name, the store is still empty, and fetching by that email
  returns \<open>null\<close>.
\<close>

theorem RegisterUser_persists_nothing:
  "RegisterUser (Live []) [(''email'', JStr ''Ann@Example.com''), (''password'', JStr ''secret1'')]
       [1, 2, 3, 4, 5, 6, 7, 8, 9, 10, 11, 12] 1700000000000
     = (Inl (Error ''Failed to register user: resourceLimits is not defined''), Live [])
   \<and> GetUserByEmail
        (snd (RegisterUser (Live [])
           [(''email'', JStr ''Ann@Example.com''), (''password'', JStr ''secret1'')]
           [1, 2, 3, 4, 5, 6, 7, 8, 9, 10, 11, 12] 1700000000000))
        ''Ann@Example.com''
     = Inr None"
  by (simp add: RegisterUser_def GetUserByEmail_def connectToDatabase_def findOne_def)

section \<open>Properties of the user listing\<close>

subsection \<open>The creation-date window\<close>









subsection \<open>Numbers written as strings\<close>

lemma below_ten: "k < 10 \<Longrightarrow> k \<in> {0, 1, 2, 3, 4, 5, 6, 7, 8, 9::nat}"
  by auto

lemma digit_nth_mem: "k < 10 \<Longrightarrow> ''0123456789'' ! k \<in> set ''0123456789''"
  using nth_mem [of k "''0123456789''"] by simp

lemma digit_nth_value: "k < 10 \<Longrightarrow> digitValue (''0123456789'' ! k) = Some k"
  using below_ten [of k] by (auto simp: digitValue_def)

lemma digitsOf_chars: "c \<in> set (digitsOf n) \<Longrightarrow> c \<in> set ''0123456789''"
proof (induction n rule: digitsOf.induct)
  case (1 n)
  show ?case
  proof (cases "n < 10")
    case True
    with "1.prems" have "c = ''0123456789'' ! n" by (simp add: digitsOf.simps [of n])
    with digit_nth_mem [OF True] show ?thesis by simp
  next
    case False
    with "1.prems" have "c \<in> set (digitsOf (n div 10)) \<or> c = ''0123456789'' ! (n mod 10)"
      by (auto simp add: digitsOf.simps [of n])
    with "1.IH" [OF False] digit_nth_mem [of "n mod 10"] show ?thesis by auto
  qed
qed

lemma digitsOf_nonempty: "digitsOf n \<noteq> []"
  by (simp add: digitsOf.simps [of n])

lemma decimal_char:
  assumes "c \<in> set ''0123456789''"
  shows "isRadixDigit 10 c" and "\<not> isWhiteSpace c" and "c \<noteq> CHR ''+''" and "c \<noteq> CHR ''-''"
    and "c \<noteq> CHR ''x''" and "c \<noteq> CHR ''X''"
  using assms by (auto simp: isRadixDigit_def digitValue_def isWhiteSpace_def)

lemma digitsValue_snoc:
  "digitsValue R (Z @ [c]) = digitsValue R Z * R + (case digitValue c of Some v \<Rightarrow> v | None \<Rightarrow> 0)"
  by (simp add: digitsValue_def)

lemma digitsValue_digitsOf: "digitsValue 10 (digitsOf n) = n"
proof (induction n rule: digitsOf.induct)
  case (1 n)
  show ?case
  proof (cases "n < 10")
    case True
    then show ?thesis
      by (simp add: digitsOf.simps [of n] digitsValue_def digit_nth_value)
  next
    case False
    with "1.IH" show ?thesis
      by (simp add: digitsOf.simps [of n] digitsValue_snoc digit_nth_value)
  qed
qed

lemma no_hex_prefix:
  assumes "\<forall>c\<in>set S. c \<in> set ''0123456789''"
  shows "take 2 S \<noteq> ''0x''" and "take 2 S \<noteq> ''0X''"
proof -
  have "False" if "take 2 S = [a, b]" and "b = CHR ''x'' \<or> b = CHR ''X''" for a b
  proof -
    from that(1) have "b \<in> set (take 2 S)" by simp
    then have "b \<in> set S" by (rule in_set_takeD)
    with assms that(2) decimal_char(5,6) [of b] show False by blast
  qed
  then show "take 2 S \<noteq> ''0x''" and "take 2 S \<noteq> ''0X''" by blast+
qed

lemma parseIntString_digitsOf: "parseIntString (digitsOf n) = Some (int n)"
proof -
  let ?S = "digitsOf n"
  have all: "\<forall>c\<in>set ?S. c \<in> set ''0123456789''" using digitsOf_chars by blast
  have ne: "?S \<noteq> []" by (rule digitsOf_nonempty)
  then have hd: "hd ?S \<in> set ''0123456789''" using all by (simp add: hd_in_set)
  have ws: "dropWhile isWhiteSpace ?S = ?S"
    using ne decimal_char(2) [OF hd] by (cases ?S) simp_all
  have tw: "takeWhile (isRadixDigit 10) ?S = ?S"
    using all decimal_char(1) by (simp add: takeWhile_eq_all_conv)
  show ?thesis
    using ne decimal_char(3,4) [OF hd] no_hex_prefix [OF all]
    by (simp add: parseIntString_def ws tw digitsValue_digitsOf)
qed

text \<open>Parsing the decimal writing of an integer gives the integer back.\<close>

lemma parseIntString_numberToString: "parseIntString (numberToString n) = Some n"
proof (cases "n < 0")
  case False
  then show ?thesis by (simp add: numberToString_def parseIntString_digitsOf)
next
  case True
  let ?S = "digitsOf (nat (- n))"
  have all: "\<forall>c\<in>set ?S. c \<in> set ''0123456789''" using digitsOf_chars by blast
  have ne: "?S \<noteq> []" by (rule digitsOf_nonempty)
  have tw: "takeWhile (isRadixDigit 10) ?S = ?S"
    using all decimal_char(1) by (simp add: takeWhile_eq_all_conv)
  have "parseIntString (CHR ''-'' # ?S) = Some (- int (nat (- n)))"
    using ne no_hex_prefix [OF all]
    by (simp add: parseIntString_def isWhiteSpace_def tw digitsValue_digitsOf)
  with True show ?thesis by (simp add: numberToString_def)
qed

lemma parseIntOr_number: "parseIntOr (JNum n) d = (if n \<noteq> 0 then n else d)"
  by (simp add: parseIntOr_def parseIntString_numberToString)





subsection \<open>Pagination\<close>









text \<open>With a negative skip the store rejects the pipeline and the listing fails.\<close>

lemma GetAllUsers_negative_page:
  "GetAllUsers eng (Live ds) now
     \<lparr>keywordsArg = JUndefined, role = JUndefined, maxAge = JUndefined, minAge = JUndefined,
      sortBy = JUndefined, pageSizeArg = JNum 5, pageNumberArg = JNum (- 3)\<rparr>
   = Inl (Error ''Failed to get users: Argument to $skip cannot be negative'')"
  by (simp add: GetAllUsers_def connectToDatabase_def aggregate_def GetAllUsers_pipeline_def
      GetAllUsers_skip_def GetAllUsers_limit_def GetAllUsers_pageNumber_def
      GetAllUsers_pageSize_def withDefault_def parseIntOr_number getSortOptions_def
      matchWellFormed_def GetAllUsers_match_def Let_def)

lemma getSortOptions_user_nonempty: "getSortOptions v (JStr ''user'') \<noteq> []"
  by (simp add: getSortOptions_def)

lemma matchWellFormed_match:
  "matchWellFormed (GetAllUsers_match now q)
     \<longleftrightarrow> (truthy (keywordsArg q) \<longrightarrow> isString (keywordsArg q))"
  by (simp add: matchWellFormed_def GetAllUsers_match_def Let_def)

lemma page_two_paging:
  assumes "pageSizeArg q = JNum 5" and "pageNumberArg q = JNum 2"
  shows "GetAllUsers_pageSize q = 5" and "GetAllUsers_pageNumber q = 2"
    and "GetAllUsers_skip q = 5" and "GetAllUsers_limit q = 5"
  using assms
  by (simp_all add: GetAllUsers_pageSize_def GetAllUsers_pageNumber_def GetAllUsers_skip_def
      GetAllUsers_limit_def withDefault_def parseIntOr_number)

lemma page_two_pipeline:
  assumes "pageSizeArg q = JNum 5" and "pageNumberArg q = JNum 2"
    and "matchWellFormed (GetAllUsers_match now q)"
  shows "runPipeline eng (GetAllUsers_pipeline now q) ds =
         Inr (take 5 (drop 5 (sortDocs eng (getSortOptions (sortBy q) (JStr ''user''))
                (filter (matches eng (GetAllUsers_match now q)) ds))))"
  using assms(3)
  by (simp add: GetAllUsers_pipeline_def Let_def getSortOptions_user_nonempty
      page_two_paging [OF assms(1,2)])

text \<open>
  C4: with \<open>pageSize = 5\<close> and \<open>pageNumber = 2\<close>, for every stored collection and
  filter, \<open>GetAllUsers\<close> returns (whenever the keywords, if given, are a string) and
  what it returns is the matching set in sorted order without its first 5 documents,
  cut to at most 5 documents, with \<open>totalUsers\<close> the size of the whole matching set and
  \<open>totalPages = ceil(totalUsers / 5)\<close>.
\<close>

theorem GetAllUsers_second_page:
  assumes "pageSizeArg q = JNum 5" and "pageNumberArg q = JNum 2"
  shows "((truthy (keywordsArg q) \<longrightarrow> isString (keywordsArg q)) \<longrightarrow>
            (\<exists>r. GetAllUsers eng (Live ds) now q = Inr r))
     \<and> (GetAllUsers eng (Live ds) now q = Inr r \<longrightarrow>
          users r = take 5 (drop 5 (sortDocs eng (getSortOptions (sortBy q) (JStr ''user''))
                      (filter (matches eng (GetAllUsers_match now q)) ds)))
          \<and> length (users r) \<le> 5
          \<and> totalUsers r = int (length (filter (matches eng (GetAllUsers_match now q)) ds))
          \<and> totalPages r = \<lceil>real_of_int (totalUsers r) / 5\<rceil>)"
proof (cases "matchWellFormed (GetAllUsers_match now q)")
  case True
  let ?M = "filter (matches eng (GetAllUsers_match now q)) ds"
  let ?page = "take 5 (drop 5 (sortDocs eng (getSortOptions (sortBy q) (JStr ''user'')) ?M))"
  have "GetAllUsers eng (Live ds) now q =
        Inr \<lparr>users = ?page, totalUsers = int (length ?M),
             totalPages = \<lceil>real_of_int (int (length ?M)) / 5\<rceil>, pageNumber = 2, pageSize = 5\<rparr>"
    using True
    by (simp add: GetAllUsers_def connectToDatabase_def aggregate_def countDocuments_def
        page_two_pipeline [OF assms True] page_two_paging [OF assms])
  then show ?thesis by auto
next
  case False
  then have "\<exists>e. GetAllUsers eng (Live ds) now q = Inl e"
    by (simp add: GetAllUsers_def connectToDatabase_def aggregate_def GetAllUsers_pipeline_def
        Let_def)
  with False show ?thesis by (auto simp: matchWellFormed_match)
qed

theorem GetAllUsers_second_page_witness:
  "\<exists>r. GetAllUsers \<lparr>regexMatch = (\<lambda>p opts x. False), sortDocs = (\<lambda>s ds. ds)\<rparr>
          (Live [[(''givenName'', JStr ''a'')], [(''givenName'', JStr ''b'')],
                 [(''givenName'', JStr ''c'')], [(''givenName'', JStr ''d'')],
                 [(''givenName'', JStr ''e'')], [(''givenName'', JStr ''f'')],
                 [(''givenName'', JStr ''g'')]])
          1793613600123
          \<lparr>keywordsArg = JUndefined, role = JUndefined, maxAge = JUndefined, minAge = JUndefined,
           sortBy = JUndefined, pageSizeArg = JNum 5, pageNumberArg = JNum 2\<rparr> = Inr r
      \<and> users r = [[(''givenName'', JStr ''f'')], [(''givenName'', JStr ''g'')]]
      \<and> length (users r) \<le> 5 \<and> totalUsers r = 7 \<and> totalPages r = 2"
proof -
  let ?eng = "\<lparr>regexMatch = (\<lambda>p opts x. False), sortDocs = (\<lambda>s ds. ds)\<rparr>"
  let ?ds = "[[(''givenName'', JStr ''a'')], [(''givenName'', JStr ''b'')],
              [(''givenName'', JStr ''c'')], [(''givenName'', JStr ''d'')],
              [(''givenName'', JStr ''e'')], [(''givenName'', JStr ''f'')],
              [(''givenName'', JStr ''g'')]]"
  let ?q = "\<lparr>keywordsArg = JUndefined, role = JUndefined, maxAge = JUndefined, minAge = JUndefined,
             sortBy = JUndefined, pageSizeArg = JNum 5, pageNumberArg = JNum 2\<rparr>"
  let ?now = "1793613600123 :: int"
  have s: "pageSizeArg ?q = JNum 5" and n: "pageNumberArg ?q = JNum 2" by simp_all
  have k: "truthy (keywordsArg ?q) \<longrightarrow> isString (keywordsArg ?q)" by simp
  have all: "filter (matches ?eng (GetAllUsers_match ?now ?q)) ?ds = ?ds"
    by (simp add: matches_def GetAllUsers_match_def GetAllUsers_createdOnFilter_def Let_def)
  from GetAllUsers_second_page [OF s n, of ?eng ?ds ?now] k
  obtain r where r: "GetAllUsers ?eng (Live ?ds) ?now ?q = Inr r"
    by blast
  from GetAllUsers_second_page [OF s n, of ?eng ?ds ?now r] r
  have p: "users r = take 5 (drop 5 (sortDocs ?eng (getSortOptions (sortBy ?q) (JStr ''user''))
                      (filter (matches ?eng (GetAllUsers_match ?now ?q)) ?ds)))
          \<and> length (users r) \<le> 5
          \<and> totalUsers r = int (length (filter (matches ?eng (GetAllUsers_match ?now ?q)) ?ds))
          \<and> totalPages r = \<lceil>real_of_int (totalUsers r) / 5\<rceil>"
    by blast
  from p have u: "users r = [[(''givenName'', JStr ''f'')], [(''givenName'', JStr ''g'')]]"
    unfolding all by simp
  from p have t: "totalUsers r = 7"
    unfolding all by simp
  from p t have "totalPages r = 2"
    by simp
  with r u t p show ?thesis by blast
qed

section \<open>Properties of the validation middleware\<close>

lemma keys_keyValue:
  "fst ` set (keyValue early b v ks) \<subseteq> insert (fst ks) (fst ` set v)"
  by (cases ks) (auto simp: keyValue_def Let_def dom_update)

lemma keys_foldl_keyValue:
  "fst ` set (foldl (keyValue early b) v schema) \<subseteq> fst ` set v \<union> fst ` set schema"
proof (induction schema arbitrary: v)
  case Nil
  then show ?case by simp
next
  case (Cons ks schema)
  have "fst ` set (foldl (keyValue early b) (keyValue early b v ks) schema)
        \<subseteq> fst ` set (keyValue early b v ks) \<union> fst ` set schema"
    by (rule Cons.IH)
  also have "\<dots> \<subseteq> insert (fst ks) (fst ` set v) \<union> fst ` set schema"
    using keys_keyValue [of early b v ks] by blast
  finally show ?case by auto
qed

lemma keys_delete: "fst ` set (AList.delete k al) = fst ` set al - {k}"
proof -
  have "set (map fst (AList.delete k al)) = set (removeAll k (map fst al))"
    by (simp only: delete_keys)
  then show ?thesis by auto
qed

lemma keys_foldl_delete:
  "fst ` set (foldl (\<lambda>acc k. AList.delete k acc) v ks) = fst ` set v - set ks"
proof (induction ks arbitrary: v)
  case Nil
  then show ?case by simp
next
  case (Cons k ks)
  show ?case by (simp add: Cons.IH keys_delete) blast
qed

lemma set_unknownKeys: "set (unknownKeys schema b) = fst ` set b - fst ` set schema"
  by (auto simp: unknownKeys_def)

lemma Joi_validate_collects:
  "fst (Joi_validate schema b \<lparr>abortEarly = False, stripUnknown = True\<rparr>) =
     (if concat (map (keyViolations False b) schema) = [] then None
      else Some (concat (map (keyViolations False b) schema)))"
  by (simp add: Joi_validate_def Let_def)

lemma Joi_validate_strips:
  "fst ` set (snd (Joi_validate schema b \<lparr>abortEarly = early, stripUnknown = True\<rparr>))
     \<subseteq> fst ` set schema"
proof -
  have "fst ` set (snd (Joi_validate schema b \<lparr>abortEarly = early, stripUnknown = True\<rparr>))
        = fst ` set (foldl (keyValue early b) b schema) - (fst ` set b - fst ` set schema)"
    by (simp add: Joi_validate_def Let_def keys_foldl_delete set_unknownKeys)
  with keys_foldl_keyValue [of early b b schema] show ?thesis by auto
qed

text \<open>
  C8: for every schema and request body, when the body violates the schema the
  middleware answers 400 with one \<open>{message, path, type}\<close> entry for every violation of
  every key, in order; when it does not, the route handler runs on the request whose
  body is the validator's sanitized value, and that value has no field outside the
  schema.
\<close>

theorem validBody_contract:
  "(concat (map (keyViolations False (body req)) schema) \<noteq> [] \<longrightarrow>
      validBody schema req =
        Respond 400
          (map (\<lambda>err. \<lparr>message = message err, path = path err, type = type err\<rparr>)
             (concat (map (keyViolations False (body req)) schema))))
   \<and> (concat (map (keyViolations False (body req)) schema) = [] \<longrightarrow>
      (\<exists>v. validBody schema req = Next (req\<lparr>body := v\<rparr>)
           \<and> v = snd (Joi_validate schema (body req) \<lparr>abortEarly = False, stripUnknown = True\<rparr>)
           \<and> fst ` set v \<subseteq> fst ` set schema))"
proof -
  obtain e v where
    r: "Joi_validate schema (body req) \<lparr>abortEarly = False, stripUnknown = True\<rparr> = (e, v)"
    by (cases "Joi_validate schema (body req) \<lparr>abortEarly = False, stripUnknown = True\<rparr>")
  from r Joi_validate_collects [of schema "body req"]
  have e: "e = (if concat (map (keyViolations False (body req)) schema) = [] then None
                else Some (concat (map (keyViolations False (body req)) schema)))"
    by simp
  from r Joi_validate_strips [of schema "body req" False]
  have v: "fst ` set v \<subseteq> fst ` set schema" by simp
  show ?thesis using r e v by (simp add: validBody_def)
qed

theorem validBody_contract_witness:
  "validBody [(''email'', required ''email''), (''password'', required ''password'')]
      \<lparr>body = [(''extra'', JNum 1)]\<rparr>
     = Respond 400
         [\<lparr>message = [CHR 0x22] @ ''email'' @ [CHR 0x22] @ '' is required'', path = [''email''],
           type = ''any.required''\<rparr>,
          \<lparr>message = [CHR 0x22] @ ''password'' @ [CHR 0x22] @ '' is required'',
           path = [''password''], type = ''any.required''\<rparr>]
   \<and> validBody [(''email'', required ''email''), (''password'', required ''password'')]
      \<lparr>body = [(''email'', JStr ''a@b.c''), (''extra'', JNum 1), (''password'', JStr ''secret1'')]\<rparr>
     = Next \<lparr>body = [(''email'', JStr ''a@b.c''), (''password'', JStr ''secret1'')]\<rparr>"
proof -
  let ?schema = "[(''email'', required ''email''), (''password'', required ''password'')]"
  let ?bad = "\<lparr>body = [(''extra'', JNum 1)]\<rparr>"
  let ?good = "\<lparr>body = [(''email'', JStr ''a@b.c''), (''extra'', JNum 1),
                        (''password'', JStr ''secret1'')]\<rparr>"
  have b: "concat (map (keyViolations False (body ?bad)) ?schema) \<noteq> []"
    by (simp add: keyViolations_def required_def getField_def)
  have g: "concat (map (keyViolations False (body ?good)) ?schema) = []"
    by (simp add: keyViolations_def required_def getField_def)
  from validBody_contract [of ?bad ?schema] b
  have 1: "validBody ?schema ?bad =
        Respond 400
          (map (\<lambda>err. \<lparr>message = message err, path = path err, type = type err\<rparr>)
             (concat (map (keyViolations False (body ?bad)) ?schema)))"
    by blast
  from validBody_contract [of ?good ?schema] g
  have 2: "validBody ?schema ?good = Next (?good\<lparr>body :=
      snd (Joi_validate ?schema (body ?good) \<lparr>abortEarly = False, stripUnknown = True\<rparr>)\<rparr>)"
    by blast
  show ?thesis
    unfolding 1 2
    by (simp add: keyViolations_def required_def getField_def Joi_validate_def Let_def
        keyValue_def unknownKeys_def)
qed

end
